theory Spec2Isabelle
  imports Main
begin

section \<open>Data model of \<^verbatim>\<open>main.go\<close>\<close>

text \<open>
  The server of \<^verbatim>\<open>main.go\<close> reads JSON-RPC requests line by line, dispatches
  them by method name and prints one JSON line per response. Everything outside the
  repository (the JSON codec, the Gemini client, the file system, the clock, the path and
  base64 helpers of the standard library) is a field of the record \<open>env\<close> below, so
  every theorem holds for whatever these libraries compute.

  The input of \<^verbatim>\<open>Run\<close> is the list of the lines that \<^verbatim>\<open>bufio.Scanner\<close> delivers,
  with the error it reports at the end; how the scanner cuts standard input into lines
  (and that it gives up on a line beyond its buffer) is the library's matter. A line
  printed by \<^verbatim>\<open>fmt.Println\<close> is taken to reach standard output: the code discards the
  error of the write. Arguments that are the same at every call and never inspected (the
  background context, the nil configuration of the service call, the file modes) are left
  out.

  A Go value of type \<^verbatim>\<open>any\<close> that came out of \<^verbatim>\<open>json.Unmarshal\<close> is a JSON
  value. Numbers are only ever copied (the request ID), never computed with, and are
  kept as integers.
\<close>

datatype json =
  JNull | JBool bool | JNum int | JStr string | JArr "json list" | JObj "(string \<times> json) list"

type_synonym bytes = string

record JSONRPCRequest =
  req_JSONRPC :: string
  req_ID :: json
  Method :: string
  Params :: bytes

record Error =
  Code :: int
  Message :: string

record ServerInfo =
  si_Name :: string
  si_Version :: string

text \<open>\<^verbatim>\<open>Tools *ToolsCapability\<close>: a pointer to an empty struct, \<open>None\<close> when nil.\<close>

record Capabilities =
  cap_Tools :: "unit option"

record InitializeResult =
  ProtocolVersion :: string
  init_Capabilities :: Capabilities
  init_ServerInfo :: ServerInfo

record Property =
  prop_Type :: string
  prop_Description :: string

text \<open>
  \<^verbatim>\<open>Properties map[string]Property\<close> is only ever built from a literal with distinct
  keys; it is the list of its entries.
\<close>

record JSONSchema =
  schema_Type :: string
  Properties :: "(string \<times> Property) list"
  Required :: "string list"

record Tool =
  tool_Name :: string
  tool_Description :: string
  InputSchema :: JSONSchema

record ListToolsResult =
  Tools :: "Tool list"

record CallToolParams =
  Name :: string
  Arguments :: "string \<rightharpoonup> json"

record Content =
  Type :: string
  Text :: string
  Data :: string
  MimeType :: string

record CallToolResult =
  Content :: "Content list"
  IsError :: bool

text \<open>
  \<^verbatim>\<open>Result any\<close> holds one of the three result structs the handlers build; the nil
  interface is \<open>None\<close>. \<^verbatim>\<open>Error *Error\<close> is \<open>None\<close> when nil.
\<close>

datatype result_any =
  InitializeResultOf InitializeResult
| ListToolsResultOf ListToolsResult
| CallToolResultOf CallToolResult

record JSONRPCResponse =
  JSONRPC :: string
  ID :: json
  Result :: "result_any option"
  Error :: "Error option"

subsection \<open>The types of the Gemini client that the code touches\<close>

text \<open>
  Of \<^verbatim>\<open>genai.GenerateContentResponse\<close> the code reads
  \<^verbatim>\<open>result.Candidates[0].Content.Parts\<close> and, of each part, \<^verbatim>\<open>Text\<close> and
  \<^verbatim>\<open>InlineData.Data\<close>. Slices are lists; the pointers (\<^verbatim>\<open>[]*Candidate\<close>,
  \<^verbatim>\<open>*Content\<close>, \<^verbatim>\<open>[]*Part\<close>, \<^verbatim>\<open>*Blob\<close>) are options, \<open>None\<close> for nil.
\<close>

record Blob =
  MIMEType :: string
  blob_Data :: bytes

record Part =
  part_Text :: string
  InlineData :: "Blob option"

record genai_Content =
  Parts :: "Part option list"

record Candidate =
  cand_Content :: "genai_Content option"

record GenerateContentResponse =
  Candidates :: "Candidate option list"

subsection \<open>Effects\<close>

text \<open>
  The history of the process is the list of the effects it has performed so far, oldest
  first: lines delivered by the scanner on standard input, lines printed on standard
  output, calls of the remote service and file-system operations. Each effectful function
  takes the history and returns the extended one.
\<close>

datatype event =
  Scan string
| Println string
| Sync
| GenerateContentCall string "genai_Content list"
| ReadFileCall string
| MkdirAllCall string
| WriteFileCall string bytes

text \<open>
  What the world answers may depend on everything that happened before, so each
  effectful library call is a function of the history. Errors are their messages:
  \<open>Inl msg\<close>, or \<open>Some msg\<close> for a call that returns only an error.
\<close>

record env =
  json_Unmarshal_request :: "string \<Rightarrow> JSONRPCRequest option"
  json_Unmarshal_params :: "bytes \<Rightarrow> CallToolParams option"
  json_Marshal :: "JSONRPCResponse \<Rightarrow> string option"
  Models_GenerateContent ::
    "event list \<Rightarrow> string \<Rightarrow> genai_Content list \<Rightarrow> string + GenerateContentResponse"
  os_ReadFile :: "event list \<Rightarrow> string \<Rightarrow> string + bytes"
  os_MkdirAll :: "event list \<Rightarrow> string \<Rightarrow> string option"
  os_WriteFile :: "event list \<Rightarrow> string \<Rightarrow> bytes \<Rightarrow> string option"
  time_Now_Format :: "event list \<Rightarrow> string"
  filepath_Abs :: "event list \<Rightarrow> string \<Rightarrow> string + string"
  filepath_Clean :: "string \<Rightarrow> string"
  filepath_Join :: "string list \<Rightarrow> string"
  filepath_Ext :: "string \<Rightarrow> string"
  strings_ToLower :: "string \<Rightarrow> string"
  base64_EncodeToString :: "bytes \<Rightarrow> string"
  base64_DecodeString :: "string \<Rightarrow> string + bytes"

text \<open>
  A Go function either returns or panics; a panic in a handler is not recovered anywhere
  in \<^verbatim>\<open>main.go\<close> and ends the process.
\<close>

datatype 'a outcome = Panic | Return 'a

record Server =
  outputDir :: string

section \<open>Constants\<close>

definition protocolVersion :: string where
  "protocolVersion = ''2024-11-05''"

definition serverName :: string where
  "serverName = ''nano-banana-mcp''"

definition serverVersion :: string where
  "serverVersion = ''2.0.0''"

definition geminiModel :: string where
  "geminiModel = ''gemini-2.5-flash-image''"

definition defaultOutputDir :: string where
  "defaultOutputDir = ''generated''"

definition newline :: string where
  "newline = [CHR 0x0A]"

section \<open>Handlers without effects\<close>

definition handleInitialize :: "JSONRPCRequest \<Rightarrow> JSONRPCResponse" where
  "handleInitialize req =
     \<lparr>JSONRPC = ''2.0'', ID = req_ID req,
      Result = Some (InitializeResultOf
        \<lparr>ProtocolVersion = protocolVersion,
         init_Capabilities = \<lparr>cap_Tools = Some ()\<rparr>,
         init_ServerInfo = \<lparr>si_Name = serverName, si_Version = serverVersion\<rparr>\<rparr>),
      Error = None\<rparr>"

definition tools :: "Tool list" where
  "tools =
     [\<lparr>tool_Name = ''generate_image'',
       tool_Description = ''Generate a new image from a text prompt using Google Gemini'',
       InputSchema =
         \<lparr>schema_Type = ''object'',
          Properties =
            [(''prompt'',
               \<lparr>prop_Type = ''string'',
                prop_Description = ''Text description of the image to generate''\<rparr>)],
          Required = [''prompt'']\<rparr>\<rparr>,
      \<lparr>tool_Name = ''edit_image'',
       tool_Description = ''Edit an existing image using a text prompt'',
       InputSchema =
         \<lparr>schema_Type = ''object'',
          Properties =
            [(''image_path'',
               \<lparr>prop_Type = ''string'',
                prop_Description = ''Path to the image file to edit''\<rparr>),
             (''prompt'',
               \<lparr>prop_Type = ''string'',
                prop_Description = ''Text description of the edits to make''\<rparr>)],
          Required = [''image_path'', ''prompt'']\<rparr>\<rparr>]"

definition handleListTools :: "JSONRPCRequest \<Rightarrow> JSONRPCResponse" where
  "handleListTools req =
     \<lparr>JSONRPC = ''2.0'', ID = req_ID req,
      Result = Some (ListToolsResultOf \<lparr>Tools = tools\<rparr>),
      Error = None\<rparr>"

definition error_response :: "JSONRPCRequest \<Rightarrow> int \<Rightarrow> string \<Rightarrow> JSONRPCResponse" where
  "error_response req code msg =
     \<lparr>JSONRPC = ''2.0'', ID = req_ID req, Result = None,
      Error = Some \<lparr>Code = code, Message = msg\<rparr>\<rparr>"

section \<open>Helpers of the tool operations\<close>

text \<open>
  \<^verbatim>\<open>v, ok := args[key].(string)\<close>: the value and \<open>True\<close> when the key is present and
  holds a string, the empty string and \<open>False\<close> otherwise (also on a nil map).
\<close>

fun string_assertion :: "json option \<Rightarrow> string \<times> bool" where
  "string_assertion (Some (JStr s)) = (s, True)"
| "string_assertion _ = ([], False)"

text \<open>\<^verbatim>\<open>strings.Contains\<close>, by \<^verbatim>\<open>strings.HasPrefix\<close> at every position.\<close>

fun HasPrefix :: "string \<Rightarrow> string \<Rightarrow> bool" where
  "HasPrefix s [] = True"
| "HasPrefix [] (p # ps) = False"
| "HasPrefix (c # s) (p # ps) = (c = p \<and> HasPrefix s ps)"

fun Contains :: "string \<Rightarrow> string \<Rightarrow> bool" where
  "Contains [] sub = (sub = [])"
| "Contains (c # s) sub = (HasPrefix (c # s) sub \<or> Contains s sub)"

definition text_content :: "string \<Rightarrow> Content" where
  "text_content t = \<lparr>Type = ''text'', Text = t, Data = [], MimeType = []\<rparr>"

definition image_content :: "string \<Rightarrow> Content" where
  "image_content d = \<lparr>Type = ''image'', Text = [], Data = d, MimeType = ''image/png''\<rparr>"

text \<open>
  \<^verbatim>\<open>genai.Text(prompt)\<close>: one content with one text part. The role of a content is
  never read by this code and is not represented.
\<close>

definition genai_Text :: "string \<Rightarrow> genai_Content list" where
  "genai_Text prompt = [\<lparr>Parts = [Some \<lparr>part_Text = prompt, InlineData = None\<rparr>]\<rparr>]"

text \<open>
  \<^verbatim>\<open>result.Candidates[0].Content.Parts\<close>: the index expression panics on an empty
  slice, the field selections on a nil candidate or a nil content. \<open>None\<close> is the panic.
\<close>

definition first_candidate_parts :: "GenerateContentResponse \<Rightarrow> Part option list option" where
  "first_candidate_parts result =
     (case Candidates result of
        [] \<Rightarrow> None
      | None # _ \<Rightarrow> None
      | Some c # _ \<Rightarrow>
          (case cand_Content c of
             None \<Rightarrow> None
           | Some content \<Rightarrow> Some (Parts content)))"

text \<open>
  The loop over the parts, the same in \<^verbatim>\<open>generateImage\<close> and \<^verbatim>\<open>editImage\<close>:
  text parts are concatenated, the last inline blob of a part without text wins. Reading
  a field of a nil part panics (\<open>None\<close>).
\<close>

fun range_parts :: "env \<Rightarrow> string \<Rightarrow> string \<Rightarrow> Part option list \<Rightarrow> (string \<times> string) option" where
  "range_parts env imageData textResponse [] = Some (imageData, textResponse)"
| "range_parts env imageData textResponse (None # ps) = None"
| "range_parts env imageData textResponse (Some part # ps) =
     (if part_Text part \<noteq> [] then range_parts env imageData (textResponse @ part_Text part) ps
      else (case InlineData part of
              Some blob \<Rightarrow> range_parts env (base64_EncodeToString env (blob_Data blob)) textResponse ps
            | None \<Rightarrow> range_parts env imageData textResponse ps))"

definition getMimeType :: "env \<Rightarrow> string \<Rightarrow> string" where
  "getMimeType env path =
     (let ext = strings_ToLower env (filepath_Ext env path) in
      if ext = ''.png'' then ''image/png''
      else if ext = ''.jpg'' \<or> ext = ''.jpeg'' then ''image/jpeg''
      else if ext = ''.webp'' then ''image/webp''
      else if ext = ''.gif'' then ''image/gif''
      else ''image/png'')"

section \<open>The tool operations\<close>

definition saveImage :: "env \<Rightarrow> Server \<Rightarrow> event list \<Rightarrow> string \<Rightarrow> string \<Rightarrow> (string + string) \<times> event list" where
  "saveImage env s tr base64Data prefix =
     (let dir = filepath_Join env [''.'', outputDir s];
          tr1 = tr @ [MkdirAllCall dir]
      in case os_MkdirAll env tr dir of
           Some err \<Rightarrow> (Inl err, tr1)
         | None \<Rightarrow>
             (let timestamp = time_Now_Format env tr1;
                  filename = prefix @ ''-'' @ timestamp @ ''.png'';
                  filePath = filepath_Join env [dir, filename]
              in case base64_DecodeString env base64Data of
                   Inl err \<Rightarrow> (Inl err, tr1)
                 | Inr imageBytes \<Rightarrow>
                     (let tr2 = tr1 @ [WriteFileCall filePath imageBytes]
                      in case os_WriteFile env tr1 filePath imageBytes of
                           Some err \<Rightarrow> (Inl err, tr2)
                         | None \<Rightarrow>
                             (case filepath_Abs env tr2 filePath of
                                Inl err \<Rightarrow> (Inl (''failed to get absolute path: '' @ err), tr2)
                              | Inr absPath \<Rightarrow> (Inr absPath, tr2)))))"

text \<open>
  What both operations do with the response of the service: extract the image and the
  text, answer with the text alone when there is no image, otherwise save the image and
  answer with the path and the image. \<open>none_msg\<close>, \<open>prefix\<close> and \<open>saved_msg\<close> are
  the three places where the two copies of this code differ.
\<close>

definition deliver ::
  "env \<Rightarrow> Server \<Rightarrow> event list \<Rightarrow> GenerateContentResponse \<Rightarrow> string \<Rightarrow> string \<Rightarrow> (string \<Rightarrow> string)
     \<Rightarrow> (string + CallToolResult) outcome \<times> event list" where
  "deliver env s tr result none_msg prefix saved_msg =
     (case first_candidate_parts result of
        None \<Rightarrow> (Panic, tr)
      | Some parts \<Rightarrow>
          (case range_parts env [] [] parts of
             None \<Rightarrow> (Panic, tr)
           | Some (imageData, textResponse) \<Rightarrow>
               if imageData = [] then
                 (Return (Inr \<lparr>Content =
                    [text_content
                       (if textResponse \<noteq> []
                        then none_msg @ newline @ newline @ ''Model response: '' @ textResponse
                        else none_msg)],
                    IsError = False\<rparr>), tr)
               else
                 (case saveImage env s tr imageData prefix of
                    (Inl err, tr') \<Rightarrow> (Return (Inl (''failed to save image: '' @ err)), tr')
                  | (Inr filePath, tr') \<Rightarrow>
                      (Return (Inr \<lparr>Content =
                         [text_content (saved_msg filePath), image_content imageData],
                         IsError = False\<rparr>), tr'))))"

definition generateImage ::
  "env \<Rightarrow> Server \<Rightarrow> event list \<Rightarrow> (string \<rightharpoonup> json) \<Rightarrow> (string + CallToolResult) outcome \<times> event list" where
  "generateImage env s tr args =
     (let (prompt, ok) = string_assertion (args ''prompt'') in
      if \<not> ok \<or> prompt = [] then (Return (Inl ''prompt is required''), tr)
      else
        (let tr1 = tr @ [GenerateContentCall geminiModel (genai_Text prompt)]
         in case Models_GenerateContent env tr geminiModel (genai_Text prompt) of
              Inl err \<Rightarrow> (Return (Inl (''API request failed: '' @ err)), tr1)
            | Inr result \<Rightarrow>
                deliver env s tr1 result ''No image was generated.'' ''generated''
                  (\<lambda>filePath. ''Image generated and saved to: '' @ filePath @ newline @ newline
                     @ ''Prompt: '' @ prompt)))"

definition editImage ::
  "env \<Rightarrow> Server \<Rightarrow> event list \<Rightarrow> (string \<rightharpoonup> json) \<Rightarrow> (string + CallToolResult) outcome \<times> event list" where
  "editImage env s tr args =
     (let (imagePath, ok) = string_assertion (args ''image_path'') in
      if \<not> ok \<or> imagePath = [] then (Return (Inl ''image_path is required''), tr)
      else
        (let (prompt, ok) = string_assertion (args ''prompt'') in
         if \<not> ok \<or> prompt = [] then (Return (Inl ''prompt is required''), tr)
         else
           (let cleanPath = filepath_Clean env imagePath in
            if Contains cleanPath ''..'' then
              (Return (Inl ''invalid image path: directory traversal not allowed''), tr)
            else
              (let tr1 = tr @ [ReadFileCall cleanPath]
               in case os_ReadFile env tr cleanPath of
                    Inl err \<Rightarrow> (Return (Inl (''failed to read image: '' @ err)), tr1)
                  | Inr imageBytes \<Rightarrow>
                      (let contents =
                             [\<lparr>Parts =
                                [Some \<lparr>part_Text = [],
                                       InlineData = Some \<lparr>MIMEType = getMimeType env cleanPath,
                                                          blob_Data = imageBytes\<rparr>\<rparr>,
                                 Some \<lparr>part_Text = prompt, InlineData = None\<rparr>]\<rparr>];
                           tr2 = tr1 @ [GenerateContentCall geminiModel contents]
                       in case Models_GenerateContent env tr1 geminiModel contents of
                            Inl err \<Rightarrow> (Return (Inl (''API request failed: '' @ err)), tr2)
                          | Inr result \<Rightarrow>
                              deliver env s tr2 result ''No edited image was generated.'' ''edited''
                                (\<lambda>filePath. ''Image edited and saved to: '' @ filePath @ newline
                                   @ newline @ ''Original: '' @ imagePath @ newline
                                   @ ''Prompt: '' @ prompt))))))"

section \<open>The dispatcher\<close>

text \<open>
  The tail of \<^verbatim>\<open>handleCallTool\<close> after the switch: an error of the operation becomes
  a result with \<^verbatim>\<open>IsError\<close>, anything else is passed on.
\<close>

definition tool_response :: "JSONRPCRequest \<Rightarrow> string + CallToolResult \<Rightarrow> JSONRPCResponse" where
  "tool_response req r =
     (case r of
        Inl err \<Rightarrow>
          \<lparr>JSONRPC = ''2.0'', ID = req_ID req,
           Result = Some (CallToolResultOf
             \<lparr>Content = [text_content (''Error: '' @ err)], IsError = True\<rparr>),
           Error = None\<rparr>
      | Inr result \<Rightarrow>
          \<lparr>JSONRPC = ''2.0'', ID = req_ID req,
           Result = Some (CallToolResultOf result),
           Error = None\<rparr>)"

text \<open>
  The operation chosen by the switch runs, and its outcome goes through that tail; a
  panic of the operation passes through the dispatcher.
\<close>

definition dispatched ::
  "JSONRPCRequest \<Rightarrow> (string + CallToolResult) outcome \<times> event list
     \<Rightarrow> JSONRPCResponse option outcome \<times> event list" where
  "dispatched req p =
     (case p of
        (Panic, tr') \<Rightarrow> (Panic, tr')
      | (Return r, tr') \<Rightarrow> (Return (Some (tool_response req r)), tr'))"

definition handleCallTool ::
  "env \<Rightarrow> Server \<Rightarrow> event list \<Rightarrow> JSONRPCRequest \<Rightarrow> JSONRPCResponse option outcome \<times> event list" where
  "handleCallTool env s tr req =
     (case json_Unmarshal_params env (Params req) of
        None \<Rightarrow> (Return (Some (error_response req (- 32602) ''Invalid params'')), tr)
      | Some params \<Rightarrow>
          if Name params = ''generate_image'' then
            dispatched req (generateImage env s tr (Arguments params))
          else if Name params = ''edit_image'' then
            dispatched req (editImage env s tr (Arguments params))
          else
            (Return (Some (error_response req (- 32601) (''Unknown tool: '' @ Name params))), tr))"

text \<open>\<open>Return None\<close> is the nil response of a notification.\<close>

definition handleRequest ::
  "env \<Rightarrow> Server \<Rightarrow> event list \<Rightarrow> JSONRPCRequest \<Rightarrow> JSONRPCResponse option outcome \<times> event list" where
  "handleRequest env s tr req =
     (if Method req = ''initialize'' then (Return (Some (handleInitialize req)), tr)
      else if Method req = ''notifications/initialized'' then (Return None, tr)
      else if Method req = ''tools/list'' then (Return (Some (handleListTools req)), tr)
      else if Method req = ''tools/call'' then handleCallTool env s tr req
      else (Return (Some (error_response req (- 32601) ''Method not found'')), tr))"

section \<open>The main loop\<close>

text \<open>
  One turn of the loop of \<^verbatim>\<open>Run\<close> on a line delivered by \<^verbatim>\<open>scanner.Scan()\<close>. The
  boolean says whether the process panicked during the turn.
\<close>

definition Run_body :: "env \<Rightarrow> Server \<Rightarrow> event list \<Rightarrow> string \<Rightarrow> event list \<times> bool" where
  "Run_body env s tr line =
     (let tr1 = tr @ [Scan line] in
      if line = [] then (tr1, False)
      else
        (case json_Unmarshal_request env line of
           None \<Rightarrow> (tr1, False)
         | Some req \<Rightarrow>
             (case handleRequest env s tr1 req of
                (Panic, tr2) \<Rightarrow> (tr2, True)
              | (Return None, tr2) \<Rightarrow> (tr2, False)
              | (Return (Some resp), tr2) \<Rightarrow>
                  (case json_Marshal env resp of
                     None \<Rightarrow> (tr2, False)
                   | Some respJSON \<Rightarrow> (tr2 @ [Println respJSON, Sync], False)))))"

fun Run_loop :: "env \<Rightarrow> Server \<Rightarrow> event list \<Rightarrow> string list \<Rightarrow> event list \<times> bool" where
  "Run_loop env s tr [] = (tr, False)"
| "Run_loop env s tr (line # rest) =
     (case Run_body env s tr line of
        (tr', True) \<Rightarrow> (tr', True)
      | (tr', False) \<Rightarrow> Run_loop env s tr' rest)"

text \<open>
  \<^verbatim>\<open>Run\<close> on the lines that the scanner delivers before it stops, and the error (or
  nil) that \<^verbatim>\<open>scanner.Err()\<close> then reports. The process either returns that error or
  has panicked.
\<close>

datatype exit = Returned "string option" | Crashed

definition Run :: "env \<Rightarrow> Server \<Rightarrow> event list \<Rightarrow> string list \<Rightarrow> string option \<Rightarrow> event list \<times> exit" where
  "Run env s tr lines scan_err =
     (case Run_loop env s tr lines of
        (tr', True) \<Rightarrow> (tr', Crashed)
      | (tr', False) \<Rightarrow> (tr', Returned scan_err))"

text \<open>What the effects of a history put on standard output, and its reads and writes.\<close>

fun stdout_of :: "event list \<Rightarrow> string list" where
  "stdout_of [] = []"
| "stdout_of (Println l # es) = l # stdout_of es"
| "stdout_of (e # es) = stdout_of es"

fun is_io :: "event \<Rightarrow> bool" where
  "is_io (Scan l) = True"
| "is_io (Println l) = True"
| "is_io e = False"

section \<open>Notions the properties are stated with\<close>

text \<open>
  The reply that is due to a line read at history \<open>tr\<close>: the marshalled response of
  the request the line holds. No reply is due to an empty line, to a line that is not a
  request, to a request that \<^verbatim>\<open>handleRequest\<close> answers with nil or whose response
  does not marshal, or when handling the request panics.
\<close>

definition reply_due :: "env \<Rightarrow> Server \<Rightarrow> event list \<Rightarrow> string \<Rightarrow> string option" where
  "reply_due env s tr line =
     (if line = [] then None
      else
        (case json_Unmarshal_request env line of
           None \<Rightarrow> None
         | Some req \<Rightarrow>
             (case fst (handleRequest env s (tr @ [Scan line]) req) of
                Panic \<Rightarrow> None
              | Return None \<Rightarrow> None
              | Return (Some resp) \<Rightarrow> json_Marshal env resp)))"

text \<open>The history at the moment the line of index \<open>i\<close> is about to be read.\<close>

definition history_before :: "env \<Rightarrow> Server \<Rightarrow> event list \<Rightarrow> string list \<Rightarrow> nat \<Rightarrow> event list" where
  "history_before env s tr lines i = fst (Run_loop env s tr (take i lines))"

definition reply_at :: "env \<Rightarrow> Server \<Rightarrow> event list \<Rightarrow> string list \<Rightarrow> nat \<Rightarrow> string option" where
  "reply_at env s tr lines i = reply_due env s (history_before env s tr lines i) (lines ! i)"

text \<open>
  What the turn of a line prints: the reply that is due, and the sync of standard output.
\<close>

definition reply_events :: "string option \<Rightarrow> event list" where
  "reply_events due = (case due of None \<Rightarrow> [] | Some r \<Rightarrow> [Println r, Sync])"

text \<open>A history that has grown by effects other than reads and prints.\<close>

definition quiet_extension :: "event list \<Rightarrow> event list \<Rightarrow> bool" where
  "quiet_extension tr tr' = (\<exists>effects. tr' = tr @ effects \<and> filter is_io effects = [])"

text \<open>A response carries exactly one of a result and an error, under version 2.0.\<close>

definition structured :: "JSONRPCResponse \<Rightarrow> bool" where
  "structured resp =
     (JSONRPC resp = ''2.0'' \<and> (case (Result resp, Error resp) of
                                   (Some r, None) \<Rightarrow> True
                                 | (None, Some e) \<Rightarrow> True
                                 | _ \<Rightarrow> False))"



text \<open>
  The arguments of \<^verbatim>\<open>generateImage\<close> pass its check; those of \<^verbatim>\<open>editImage\<close> pass
  its checks and the source image is read.
\<close>

definition valid_prompt :: "(string \<rightharpoonup> json) \<Rightarrow> bool" where
  "valid_prompt args =
     (snd (string_assertion (args ''prompt'')) \<and> fst (string_assertion (args ''prompt'')) \<noteq> [])"

definition source_read :: "env \<Rightarrow> event list \<Rightarrow> (string \<rightharpoonup> json) \<Rightarrow> bool" where
  "source_read env tr args =
     (snd (string_assertion (args ''image_path''))
      \<and> fst (string_assertion (args ''image_path'')) \<noteq> []
      \<and> valid_prompt args
      \<and> \<not> Contains (filepath_Clean env (fst (string_assertion (args ''image_path'')))) ''..''
      \<and> \<not> isl (os_ReadFile env tr
                 (filepath_Clean env (fst (string_assertion (args ''image_path''))))))"



section \<open>A sample environment\<close>

text \<open>
  A concrete environment on which the model can be run: a Unix file system that holds one
  image, a service that answers every call with one candidate made of a text part and an
  image part, and stand-ins for the codecs. The JSON decoder of the sample knows the lines
  and parameters listed here and rejects everything else; its encoder writes a short tag
  instead of JSON text; its base64 codec is the identity.
\<close>

fun split_sep :: "string \<Rightarrow> string list" where
  "split_sep [] = [[]]"
| "split_sep (c # cs) =
     (if c = CHR ''/'' then [] # split_sep cs
      else (case split_sep cs of x # xs \<Rightarrow> (c # x) # xs | [] \<Rightarrow> [[c]]))"

fun join_sep :: "string list \<Rightarrow> string" where
  "join_sep [] = []"
| "join_sep [e] = e"
| "join_sep (e # es) = e @ ''/'' @ join_sep es"

text \<open>
  \<^verbatim>\<open>filepath.Clean\<close> on Unix: empty and \<^verbatim>\<open>.\<close> elements go, a \<^verbatim>\<open>..\<close> element
  removes the element before it, is dropped at the root and is kept at the start of a
  relative path. \<open>out\<close> is the cleaned path so far, last element first.
\<close>

fun clean_elems :: "bool \<Rightarrow> string list \<Rightarrow> string list \<Rightarrow> string list" where
  "clean_elems rooted out [] = rev out"
| "clean_elems rooted out (e # es) =
     (if e = [] \<or> e = ''.'' then clean_elems rooted out es
      else if e = ''..'' then
        (case out of
           t # out' \<Rightarrow>
             if t \<noteq> ''..'' then clean_elems rooted out' es
             else if rooted then clean_elems rooted out es
             else clean_elems rooted (e # out) es
         | [] \<Rightarrow>
             if rooted then clean_elems rooted out es
             else clean_elems rooted (e # out) es)
      else clean_elems rooted (e # out) es)"

definition unix_Clean :: "string \<Rightarrow> string" where
  "unix_Clean path =
     (case path of
        [] \<Rightarrow> ''.''
      | c # _ \<Rightarrow>
          (let rooted = (c = CHR ''/'');
               out = join_sep (clean_elems rooted [] (split_sep path))
           in if rooted then ''/'' @ out else if out = [] then ''.'' else out))"

definition unix_Join :: "string list \<Rightarrow> string" where
  "unix_Join elems =
     (case filter (\<lambda>e. e \<noteq> []) elems of [] \<Rightarrow> [] | es \<Rightarrow> unix_Clean (join_sep es))"

fun ext_rev :: "string \<Rightarrow> string \<Rightarrow> string" where
  "ext_rev acc [] = []"
| "ext_rev acc (c # cs) =
     (if c = CHR ''/'' then [] else if c = CHR ''.'' then c # acc else ext_rev (c # acc) cs)"

definition unix_Ext :: "string \<Rightarrow> string" where
  "unix_Ext path = ext_rev [] (rev path)"

definition ascii_ToLower :: "string \<Rightarrow> string" where
  "ascii_ToLower =
     map (\<lambda>c. case map_of (zip ''ABCDEFGHIJKLMNOPQRSTUVWXYZ'' ''abcdefghijklmnopqrstuvwxyz'') c of
                 Some l \<Rightarrow> l
               | None \<Rightarrow> c)"

definition line_initialize :: string where
  \<open>line_initialize = ''{"jsonrpc":"2.0","id":1,"method":"initialize"}''\<close>

definition line_initialized :: string where
  \<open>line_initialized = ''{"jsonrpc":"2.0","method":"notifications/initialized"}''\<close>

definition line_list :: string where
  \<open>line_list = ''{"jsonrpc":"2.0","id":2,"method":"tools/list"}''\<close>

definition params_generate :: bytes where
  \<open>params_generate = ''{"name":"generate_image","arguments":{"prompt":"a red pixel"}}''\<close>

definition line_generate :: string where
  \<open>line_generate = ''{"jsonrpc":"2.0","id":3,"method":"tools/call","params":'' @ params_generate @ ''}''\<close>

definition line_unknown_method :: string where
  \<open>line_unknown_method = ''{"jsonrpc":"2.0","id":4,"method":"unknown/method"}''\<close>

definition line_no_params :: string where
  \<open>line_no_params = ''{"jsonrpc":"2.0","id":5,"method":"tools/call"}''\<close>

definition line_not_json :: string where
  \<open>line_not_json = ''{"invalid json''\<close>

definition request :: "int \<Rightarrow> string \<Rightarrow> bytes \<Rightarrow> JSONRPCRequest" where
  "request i m ps = \<lparr>req_JSONRPC = ''2.0'', req_ID = JNum i, Method = m, Params = ps\<rparr>"

definition sample_requests :: "(string \<times> JSONRPCRequest) list" where
  "sample_requests =
     [(line_initialize, request 1 ''initialize'' []),
      (line_initialized,
         \<lparr>req_JSONRPC = ''2.0'', req_ID = JNull, Method = ''notifications/initialized'', Params = []\<rparr>),
      (line_list, request 2 ''tools/list'' []),
      (line_generate, request 3 ''tools/call'' params_generate),
      (line_unknown_method, request 4 ''unknown/method'' []),
      (line_no_params, request 5 ''tools/call'' [])]"

definition params_generate_empty :: bytes where
  \<open>params_generate_empty = ''{"name":"generate_image","arguments":{}}''\<close>

definition params_edit :: bytes where
  \<open>params_edit = ''{"name":"edit_image","arguments":{"image_path":"cat.png","prompt":"add a hat"}}''\<close>

definition params_unknown :: bytes where
  \<open>params_unknown = ''{"name":"unknown_tool","arguments":{}}''\<close>

definition sample_params :: "(bytes \<times> CallToolParams) list" where
  "sample_params =
     [(params_generate,
         \<lparr>Name = ''generate_image'', Arguments = [''prompt'' \<mapsto> JStr ''a red pixel'']\<rparr>),
      (params_generate_empty, \<lparr>Name = ''generate_image'', Arguments = Map.empty\<rparr>),
      (params_edit,
         \<lparr>Name = ''edit_image'',
          Arguments = [''image_path'' \<mapsto> JStr ''cat.png'', ''prompt'' \<mapsto> JStr ''add a hat'']\<rparr>),
      (params_unknown, \<lparr>Name = ''unknown_tool'', Arguments = Map.empty\<rparr>)]"

definition sample_Marshal :: "JSONRPCResponse \<Rightarrow> string option" where
  "sample_Marshal resp =
     Some (case Error resp of
             Some e \<Rightarrow> ''error: '' @ Message e
           | None \<Rightarrow>
               (case Result resp of
                  None \<Rightarrow> ''null''
                | Some (InitializeResultOf r) \<Rightarrow> ''initialized: '' @ ProtocolVersion r
                | Some (ListToolsResultOf r) \<Rightarrow> ''tools: '' @ join_sep (map tool_Name (Tools r))
                | Some (CallToolResultOf r) \<Rightarrow>
                    ''content: '' @ (case Content r of [] \<Rightarrow> [] | c # cs \<Rightarrow> Text c)))"

definition sample_response :: GenerateContentResponse where
  "sample_response =
     \<lparr>Candidates =
        [Some \<lparr>cand_Content = Some
           \<lparr>Parts =
              [Some \<lparr>part_Text = ''Here is your image.'', InlineData = None\<rparr>,
               Some \<lparr>part_Text = [],
                     InlineData = Some \<lparr>MIMEType = ''image/png'', blob_Data = ''PNGDATA''\<rparr>\<rparr>]\<rparr>\<rparr>]\<rparr>"

definition sample_env :: env where
  "sample_env =
     \<lparr>json_Unmarshal_request = map_of sample_requests,
      json_Unmarshal_params = map_of sample_params,
      json_Marshal = sample_Marshal,
      Models_GenerateContent = (\<lambda>tr model contents. Inr sample_response),
      os_ReadFile =
        (\<lambda>tr path. if path = ''cat.png'' then Inr ''CATDATA''
                    else Inl (''open '' @ path @ '': no such file or directory'')),
      os_MkdirAll = (\<lambda>tr path. None),
      os_WriteFile = (\<lambda>tr path data. None),
      time_Now_Format = (\<lambda>tr. ''2025-01-02T03-04-05''),
      filepath_Abs = (\<lambda>tr path. Inr (''/srv/'' @ path)),
      filepath_Clean = unix_Clean,
      filepath_Join = unix_Join,
      filepath_Ext = unix_Ext,
      strings_ToLower = ascii_ToLower,
      base64_EncodeToString = (\<lambda>data. data),
      base64_DecodeString = (\<lambda>str. Inr str)\<rparr>"

text \<open>The same environment with a service that answers without any candidate.\<close>

definition blocked_env :: env where
  "blocked_env = sample_env\<lparr>Models_GenerateContent := (\<lambda>tr model contents. Inr \<lparr>Candidates = []\<rparr>)\<rparr>"

definition sample_server :: Server where
  "sample_server = \<lparr>outputDir = defaultOutputDir\<rparr>"

section \<open>Histories only grow, and only the loop reads and prints\<close>

lemma stdout_of_append: "stdout_of (xs @ ys) = stdout_of xs @ stdout_of ys"
  by (induction xs rule: stdout_of.induct) auto

lemma stdout_of_quiet: "filter is_io effects = [] \<Longrightarrow> stdout_of effects = []"
  by (induction effects rule: stdout_of.induct) (auto split: if_splits)

lemma quiet_refl: "quiet_extension tr tr"
  by (simp add: quiet_extension_def)

lemma quiet_trans:
  "quiet_extension tr tr' \<Longrightarrow> quiet_extension tr' tr'' \<Longrightarrow> quiet_extension tr tr''"
  by (auto simp: quiet_extension_def)

lemma quiet_snoc: "\<not> is_io e \<Longrightarrow> quiet_extension tr (tr @ [e])"
  by (simp add: quiet_extension_def)

lemma saveImage_quiet: "quiet_extension tr (snd (saveImage env s tr d p))"
  by (auto simp: saveImage_def Let_def quiet_extension_def split: option.splits sum.splits)

lemma deliver_quiet:
  "quiet_extension tr (snd (deliver env s tr result none_msg prefix saved_msg))"
proof (cases "first_candidate_parts result")
  case None
  then show ?thesis by (simp add: deliver_def quiet_refl)
next
  case (Some parts)
  show ?thesis
  proof (cases "range_parts env [] [] parts")
    case None
    with Some show ?thesis by (simp add: deliver_def quiet_refl)
  next
    case (Some p)
    obtain imageData textResponse where p: "p = (imageData, textResponse)" by (cases p)
    obtain r tr' where sv: "saveImage env s tr imageData prefix = (r, tr')"
      by (cases "saveImage env s tr imageData prefix")
    from saveImage_quiet [of tr env s imageData prefix] sv
    have "quiet_extension tr tr'" by simp
    with \<open>first_candidate_parts result = Some parts\<close> Some p sv show ?thesis
      by (simp add: deliver_def quiet_refl split: sum.splits)
  qed
qed

lemma deliver_after:
  "quiet_extension tr tr1 \<Longrightarrow>
     quiet_extension tr (snd (deliver env s tr1 result none_msg prefix saved_msg))"
  using deliver_quiet quiet_trans by blast

lemma generateImage_quiet: "quiet_extension tr (snd (generateImage env s tr args))"
  by (simp add: generateImage_def Let_def quiet_refl quiet_snoc deliver_after
      split: prod.splits sum.splits)

lemma editImage_quiet: "quiet_extension tr (snd (editImage env s tr args))"
proof -
  have "quiet_extension tr ((tr @ [ReadFileCall p]) @ [GenerateContentCall m c])" for p m c
    by (simp add: quiet_extension_def)
  then show ?thesis
    by (simp add: editImage_def Let_def quiet_refl quiet_snoc deliver_after
        split: prod.splits sum.splits)
qed

lemma snd_dispatched: "snd (dispatched req p) = snd p"
  by (cases p; cases "fst p") (auto simp: dispatched_def)

lemma handleCallTool_quiet: "quiet_extension tr (snd (handleCallTool env s tr req))"
  by (simp add: handleCallTool_def snd_dispatched generateImage_quiet editImage_quiet quiet_refl
      split: option.splits)

lemma handleRequest_quiet: "quiet_extension tr (snd (handleRequest env s tr req))"
  by (simp add: handleRequest_def handleCallTool_quiet quiet_refl)

text \<open>
  The turn of a line: its read, the effects of handling it, its reply if one is due.
\<close>

lemma Run_body_turn:
  "\<exists>effects. fst (Run_body env s tr line) =
       tr @ Scan line # effects @ reply_events (reply_due env s tr line)
     \<and> filter is_io effects = []"
proof (cases "line = []")
  case True
  then show ?thesis by (simp add: Run_body_def reply_due_def reply_events_def)
next
  case False
  show ?thesis
  proof (cases "json_Unmarshal_request env line")
    case None
    with False show ?thesis by (simp add: Run_body_def reply_due_def reply_events_def)
  next
    case (Some req)
    obtain r tr2 where h: "handleRequest env s (tr @ [Scan line]) req = (r, tr2)"
      by (cases "handleRequest env s (tr @ [Scan line]) req")
    from handleRequest_quiet [of "tr @ [Scan line]" env s req] h
    obtain effects where "tr2 = (tr @ [Scan line]) @ effects" "filter is_io effects = []"
      by (auto simp: quiet_extension_def)
    with False Some h show ?thesis
      by (intro exI [of _ effects])
        (simp add: Run_body_def reply_due_def reply_events_def
          split: outcome.splits option.splits)
  qed
qed

lemma Run_loop_append:
  "Run_loop env s tr (xs @ ys) =
     (case Run_loop env s tr xs of
        (tr', True) \<Rightarrow> (tr', True)
      | (tr', False) \<Rightarrow> Run_loop env s tr' ys)"
  by (induction xs arbitrary: tr) (auto split: prod.splits bool.splits)

lemma reply_at_snoc: "i < length xs \<Longrightarrow> reply_at env s tr (xs @ [x]) i = reply_at env s tr xs i"
  by (simp add: reply_at_def history_before_def nth_append)

lemma reply_at_last:
  "reply_at env s tr (xs @ [x]) (length xs) = reply_due env s (fst (Run_loop env s tr xs)) x"
  by (simp add: reply_at_def history_before_def)

text \<open>
  The history of the loop is the sequence of the turns it has started, in the order of the
  lines. After a panic the loop has stopped in its last turn.
\<close>

lemma Run_loop_turns:
  "\<exists>turns. fst (Run_loop env s tr lines) = tr @ concat turns
     \<and> (if snd (Run_loop env s tr lines) then 0 < length turns \<and> length turns \<le> length lines
         else length turns = length lines)
     \<and> (\<forall>i<length turns. \<exists>effects.
           turns ! i = Scan (lines ! i) # effects @ reply_events (reply_at env s tr lines i)
           \<and> filter is_io effects = [])"
proof (induction lines rule: rev_induct)
  case Nil
  show ?case by simp
next
  case (snoc x xs)
  then obtain turns where
    h: "fst (Run_loop env s tr xs) = tr @ concat turns"
    and n: "if snd (Run_loop env s tr xs) then 0 < length turns \<and> length turns \<le> length xs
         else length turns = length xs"
    and t: "\<forall>i<length turns. \<exists>effects.
           turns ! i = Scan (xs ! i) # effects @ reply_events (reply_at env s tr xs i)
           \<and> filter is_io effects = []"
    by blast
  obtain trx c where rx: "Run_loop env s tr xs = (trx, c)"
    by (cases "Run_loop env s tr xs")
  from n have le: "length turns \<le> length xs"
    by (simp split: if_splits)
  have old: "\<exists>effects.
      turns ! i = Scan ((xs @ [x]) ! i) # effects @ reply_events (reply_at env s tr (xs @ [x]) i)
      \<and> filter is_io effects = []" if "i < length turns" for i
    using that t le by (simp add: nth_append reply_at_snoc)
  show ?case
  proof (cases c)
    case True
    with rx have "Run_loop env s tr (xs @ [x]) = (trx, True)"
      by (simp add: Run_loop_append)
    with h n rx True old show ?thesis
      by (intro exI [of _ turns]) simp
  next
    case False
    with rx n have len: "length turns = length xs" by simp
    obtain tr' c' where b: "Run_body env s trx x = (tr', c')"
      by (cases "Run_body env s trx x")
    from rx False b have r: "Run_loop env s tr (xs @ [x]) = (tr', c')"
      by (simp add: Run_loop_append split: bool.splits)
    from Run_body_turn [of env s trx x] b obtain effects where
      e: "tr' = trx @ Scan x # effects @ reply_events (reply_due env s trx x)"
      and q: "filter is_io effects = []"
      by auto
    let ?turn = "Scan x # effects @ reply_events (reply_due env s trx x)"
    have new: "\<exists>effects.
        (turns @ [?turn]) ! i =
          Scan ((xs @ [x]) ! i) # effects @ reply_events (reply_at env s tr (xs @ [x]) i)
        \<and> filter is_io effects = []" if "i < length (turns @ [?turn])" for i
    proof (cases "i < length turns")
      case True
      with old [of i] show ?thesis by (simp add: nth_append)
    next
      case False
      with that len have "i = length xs" by simp
      with len rx q show ?thesis
        by (intro exI [of _ effects]) (simp add: nth_append reply_at_last)
    qed
    from h rx e r len new show ?thesis
      by (intro exI [of _ "turns @ [?turn]"]) simp
  qed
qed

lemma stdout_of_reply_events:
  "stdout_of (reply_events due) = (case due of None \<Rightarrow> [] | Some r \<Rightarrow> [r])"
  by (simp add: reply_events_def split: option.splits)

lemma stdout_of_turns:
  assumes "\<forall>i<length turns. \<exists>effects.
           turns ! i = Scan (lines ! i) # effects @ reply_events (f i)
           \<and> filter is_io effects = []"
  shows "stdout_of (concat turns) = List.map_filter f [0..<length turns]"
  using assms
proof (induction turns rule: rev_induct)
  case Nil
  show ?case by (simp add: List.map_filter_simps)
next
  case (snoc t ts)
  have "\<forall>i<length ts. \<exists>effects.
           ts ! i = Scan (lines ! i) # effects @ reply_events (f i)
           \<and> filter is_io effects = []"
  proof (intro allI impI)
    fix i assume "i < length ts"
    with snoc.prems [rule_format, of i] show "\<exists>effects.
           ts ! i = Scan (lines ! i) # effects @ reply_events (f i)
           \<and> filter is_io effects = []"
      by (simp add: nth_append)
  qed
  then have ih: "stdout_of (concat ts) = List.map_filter f [0..<length ts]"
    by (rule snoc.IH)
  from snoc.prems [rule_format, of "length ts"] obtain effects where
    "t = Scan (lines ! length ts) # effects @ reply_events (f (length ts))"
    "filter is_io effects = []"
    by auto
  then have "stdout_of t = (case f (length ts) of None \<Rightarrow> [] | Some r \<Rightarrow> [r])"
    by (simp add: stdout_of_append stdout_of_quiet stdout_of_reply_events)
  with ih show ?case
    by (simp add: stdout_of_append List.map_filter_def split: option.splits)
qed

lemma Run_loop_stdout:
  "\<exists>k\<le>length lines. stdout_of (fst (Run_loop env s tr lines)) =
          stdout_of tr @ List.map_filter (reply_at env s tr lines) [0..<k]
       \<and> (\<not> snd (Run_loop env s tr lines) \<longrightarrow> k = length lines)"
proof -
  obtain turns where
    h: "fst (Run_loop env s tr lines) = tr @ concat turns"
    and n: "if snd (Run_loop env s tr lines) then 0 < length turns \<and> length turns \<le> length lines
         else length turns = length lines"
    and t: "\<forall>i<length turns. \<exists>effects.
           turns ! i = Scan (lines ! i) # effects @ reply_events (reply_at env s tr lines i)
           \<and> filter is_io effects = []"
    using Run_loop_turns by blast
  from t have "stdout_of (concat turns) =
      List.map_filter (reply_at env s tr lines) [0..<length turns]"
    by (rule stdout_of_turns)
  with h n show ?thesis
    by (intro exI [of _ "length turns"]) (auto simp: stdout_of_append split: if_splits)
qed

section \<open>Replies and their order\<close>

lemma dispatched_responds:
  "fst (dispatched req p) \<noteq> Panic \<Longrightarrow> \<exists>resp. fst (dispatched req p) = Return (Some resp)"
  by (cases p; cases "fst p") (auto simp: dispatched_def)

lemma handleRequest_responds:
  assumes "Method req \<noteq> ''notifications/initialized''"
    and "fst (handleRequest env s tr req) \<noteq> Panic"
  shows "\<exists>resp. fst (handleRequest env s tr req) = Return (Some resp)"
  using assms
  by (auto simp: handleRequest_def handleCallTool_def dispatched_responds
      split: if_splits option.splits)

text \<open>
  Claim C1, as amended. As stated (exactly one reply for every request) the claim fails:
  \<^verbatim>\<open>handleRequest\<close> answers the notification \<^verbatim>\<open>notifications/initialized\<close> with
  nil and \<^verbatim>\<open>Run\<close> prints nothing for it. What holds: when no handler panics,
  standard output grows by the replies that are due to the lines, in the order in which
  the lines arrived, and by nothing else. The reply that is due to a request with any
  other method, when handling it does not panic, is the marshalling of the response that
  \<^verbatim>\<open>handleRequest\<close> returns; no reply is due to the notification.
\<close>

theorem replies_in_arrival_order:
  "(snd (Run env s tr lines e) \<noteq> Crashed \<longrightarrow>
      stdout_of (fst (Run env s tr lines e)) =
        stdout_of tr @ List.map_filter (reply_at env s tr lines) [0..<length lines])
   \<and> (line \<noteq> [] \<and> json_Unmarshal_request env line = Some req
       \<and> Method req \<noteq> ''notifications/initialized''
       \<and> fst (handleRequest env s (tr @ [Scan line]) req) \<noteq> Panic \<longrightarrow>
      (\<exists>resp. fst (handleRequest env s (tr @ [Scan line]) req) = Return (Some resp)
         \<and> reply_due env s tr line = json_Marshal env resp))
   \<and> (line \<noteq> [] \<and> json_Unmarshal_request env line = Some req
       \<and> Method req = ''notifications/initialized'' \<longrightarrow>
      reply_due env s tr line = None)"
proof (intro conjI impI)
  assume "snd (Run env s tr lines e) \<noteq> Crashed"
  then have "\<not> snd (Run_loop env s tr lines)"
    by (auto simp: Run_def split: prod.splits bool.splits)
  with Run_loop_stdout [of lines env s tr]
  show "stdout_of (fst (Run env s tr lines e)) =
      stdout_of tr @ List.map_filter (reply_at env s tr lines) [0..<length lines]"
    by (auto simp: Run_def split: prod.splits bool.splits)
next
  assume a: "line \<noteq> [] \<and> json_Unmarshal_request env line = Some req
       \<and> Method req \<noteq> ''notifications/initialized''
       \<and> fst (handleRequest env s (tr @ [Scan line]) req) \<noteq> Panic"
  then obtain resp where
    "fst (handleRequest env s (tr @ [Scan line]) req) = Return (Some resp)"
    using handleRequest_responds by blast
  with a show "\<exists>resp. fst (handleRequest env s (tr @ [Scan line]) req) = Return (Some resp)
         \<and> reply_due env s tr line = json_Marshal env resp"
    by (simp add: reply_due_def)
next
  assume "line \<noteq> [] \<and> json_Unmarshal_request env line = Some req
       \<and> Method req = ''notifications/initialized''"
  then show "reply_due env s tr line = None"
    by (simp add: reply_due_def handleRequest_def)
qed

theorem replies_in_arrival_order_witness:
  "snd (Run sample_env sample_server []
          [line_initialize, line_initialized, [], line_not_json, line_list] None) = Returned None
   \<and> stdout_of (fst (Run sample_env sample_server []
          [line_initialize, line_initialized, [], line_not_json, line_list] None)) =
       [''initialized: 2024-11-05'', ''tools: generate_image/edit_image'']
   \<and> json_Unmarshal_request sample_env line_list = Some (request 2 ''tools/list'' [])
   \<and> reply_due sample_env sample_server [] line_list =
       json_Marshal sample_env (handleListTools (request 2 ''tools/list'' []))
   \<and> reply_due sample_env sample_server [] line_initialized = None"
proof -
  let ?lines = "[line_initialize, line_initialized, [], line_not_json, line_list]"
  let ?req = "request 2 ''tools/list'' []"
  let ?note = "\<lparr>req_JSONRPC = ''2.0'', req_ID = JNull, Method = ''notifications/initialized'',
      Params = []\<rparr>"
  have r: "snd (Run sample_env sample_server [] ?lines None) = Returned None"
    by code_simp
  then have h: "snd (Run sample_env sample_server [] ?lines None) \<noteq> Crashed"
    by simp
  have e: "stdout_of [] @ List.map_filter (reply_at sample_env sample_server [] ?lines)
             [0..<length ?lines] =
           [''initialized: 2024-11-05'', ''tools: generate_image/edit_image'']"
    by code_simp
  have u: "json_Unmarshal_request sample_env line_list = Some ?req"
    "json_Unmarshal_request sample_env line_initialized = Some ?note"
    "line_list \<noteq> []" "line_initialized \<noteq> []"
    by code_simp+
  have q: "handleRequest sample_env sample_server ([] @ [Scan line_list]) ?req =
      (Return (Some (handleListTools ?req)), [Scan line_list])"
    by (simp add: handleRequest_def request_def)
  note t = replies_in_arrival_order [where env = sample_env and s = sample_server and tr = "[]"]
  from t [where lines = ?lines and e = None] h e
  have c1: "stdout_of (fst (Run sample_env sample_server [] ?lines None)) =
      [''initialized: 2024-11-05'', ''tools: generate_image/edit_image'']"
    by simp
  from t [where line = line_list and req = ?req] u q
  have c2: "reply_due sample_env sample_server [] line_list =
      json_Marshal sample_env (handleListTools ?req)"
    by (simp add: request_def)
  from t [where line = line_initialized and req = ?note] u
  have c3: "reply_due sample_env sample_server [] line_initialized = None"
    by simp
  from r c1 u c2 c3 show ?thesis
    by simp
qed

text \<open>
  The counterexample to C1 as stated: the line holds a request, the server returns
  normally, and nothing was printed.
\<close>

theorem notification_gets_no_reply:
  "json_Unmarshal_request sample_env line_initialized =
     Some \<lparr>req_JSONRPC = ''2.0'', req_ID = JNull, Method = ''notifications/initialized'',
           Params = []\<rparr>
   \<and> Run sample_env sample_server [] [line_initialized] None =
       ([Scan line_initialized], Returned None)
   \<and> stdout_of (fst (Run sample_env sample_server [] [line_initialized] None)) = []"
  by code_simp

section \<open>One request at a time\<close>

text \<open>
  Claim C7. The history of a run is the sequence of the turns of the lines, in arrival
  order, each turn in one piece: the read of the line, then the effects of handling it
  (none of them a read or a print), then the print of its reply if one is due. So the
  reply to a request is on standard output before the next request is read, and the
  effects of handling a request lie between its own read and the next one. A run that
  panics has stopped in its last turn; a run that returns has had a turn for every line.
\<close>

theorem one_request_at_a_time:
  "\<exists>turns. fst (Run env s tr lines e) = tr @ concat turns
     \<and> (if snd (Run env s tr lines e) = Crashed
         then 0 < length turns \<and> length turns \<le> length lines
         else length turns = length lines)
     \<and> (\<forall>i<length turns. \<exists>effects.
           turns ! i = Scan (lines ! i) # effects @ reply_events (reply_at env s tr lines i)
           \<and> filter is_io effects = [])"
proof -
  have "fst (Run env s tr lines e) = fst (Run_loop env s tr lines)"
    and "(snd (Run env s tr lines e) = Crashed) = snd (Run_loop env s tr lines)"
    by (auto simp: Run_def split: prod.splits bool.splits)
  with Run_loop_turns [of env s tr lines] show ?thesis by simp
qed

theorem one_request_at_a_time_witness:
  "snd (Run sample_env sample_server [] [line_list, line_initialized] None) = Returned None
   \<and> (\<exists>turns. fst (Run sample_env sample_server [] [line_list, line_initialized] None) =
         [] @ concat turns
       \<and> length turns = 2
       \<and> (\<exists>effects. turns ! 0 =
             Scan line_list # effects @ [Println ''tools: generate_image/edit_image'', Sync]
           \<and> filter is_io effects = [])
       \<and> (\<exists>effects. turns ! 1 = Scan line_initialized # effects @ []
           \<and> filter is_io effects = []))"
proof -
  let ?lines = "[line_list, line_initialized]"
  have r: "snd (Run sample_env sample_server [] ?lines None) = Returned None"
    by code_simp
  have d0: "reply_events (reply_at sample_env sample_server [] ?lines 0) =
      [Println ''tools: generate_image/edit_image'', Sync]"
    by code_simp
  have d1: "reply_events (reply_at sample_env sample_server [] ?lines 1) = []"
    by code_simp
  from one_request_at_a_time [of sample_env sample_server "[]" ?lines None] r
  obtain turns where
    h: "fst (Run sample_env sample_server [] ?lines None) = [] @ concat turns"
    and n: "length turns = 2"
    and t: "\<forall>i<length turns. \<exists>effects.
           turns ! i = Scan (?lines ! i) # effects
             @ reply_events (reply_at sample_env sample_server [] ?lines i)
           \<and> filter is_io effects = []"
    by auto
  from t [rule_format, of 0] n have "\<exists>effects. turns ! 0 = Scan (?lines ! 0) # effects
        @ reply_events (reply_at sample_env sample_server [] ?lines 0)
      \<and> filter is_io effects = []"
    by simp
  with d0 have t0: "\<exists>effects. turns ! 0 =
             Scan line_list # effects @ [Println ''tools: generate_image/edit_image'', Sync]
           \<and> filter is_io effects = []"
    by simp
  from t [rule_format, of 1] n have "\<exists>effects. turns ! 1 = Scan (?lines ! 1) # effects
        @ reply_events (reply_at sample_env sample_server [] ?lines 1)
      \<and> filter is_io effects = []"
    by simp
  with d1 have t1: "\<exists>effects. turns ! 1 = Scan line_initialized # effects @ []
           \<and> filter is_io effects = []"
    by simp
  from r h n t0 t1 show ?thesis
    by blast
qed

section \<open>The dispatcher\<close>

text \<open>
  Claim C2. \<^verbatim>\<open>handleRequest\<close> routes by the method name alone: each of the four known
  methods takes its own branch (the notification is answered with nil), and every other
  method is answered, without any effect, by the error \<open>-32601\<close> "Method not found"
  under the ID of the request.
\<close>

theorem handleRequest_routes:
  "(Method req = ''initialize'' \<longrightarrow>
      handleRequest env s tr req = (Return (Some (handleInitialize req)), tr))
   \<and> (Method req = ''notifications/initialized'' \<longrightarrow>
      handleRequest env s tr req = (Return None, tr))
   \<and> (Method req = ''tools/list'' \<longrightarrow>
      handleRequest env s tr req = (Return (Some (handleListTools req)), tr))
   \<and> (Method req = ''tools/call'' \<longrightarrow>
      handleRequest env s tr req = handleCallTool env s tr req)
   \<and> (Method req \<notin> {''initialize'', ''notifications/initialized'', ''tools/list'', ''tools/call''} \<longrightarrow>
      handleRequest env s tr req =
        (Return (Some \<lparr>JSONRPC = ''2.0'', ID = req_ID req, Result = None,
                       Error = Some \<lparr>Code = - 32601, Message = ''Method not found''\<rparr>\<rparr>), tr))"
  by (simp add: handleRequest_def error_response_def)

theorem handleRequest_routes_witness:
  "handleRequest sample_env sample_server [] (request 1 ''initialize'' []) =
     (Return (Some (handleInitialize (request 1 ''initialize'' []))), [])
   \<and> handleRequest sample_env sample_server [] (request 0 ''notifications/initialized'' []) =
     (Return None, [])
   \<and> handleRequest sample_env sample_server [] (request 2 ''tools/list'' []) =
     (Return (Some (handleListTools (request 2 ''tools/list'' []))), [])
   \<and> handleRequest sample_env sample_server [] (request 3 ''tools/call'' params_unknown) =
     handleCallTool sample_env sample_server [] (request 3 ''tools/call'' params_unknown)
   \<and> handleRequest sample_env sample_server [] (request 4 ''unknown/method'' []) =
     (Return (Some \<lparr>JSONRPC = ''2.0'', ID = JNum 4, Result = None,
                    Error = Some \<lparr>Code = - 32601, Message = ''Method not found''\<rparr>\<rparr>), [])"
  using handleRequest_routes [of "request 1 ''initialize'' []" sample_env sample_server "[]"]
    handleRequest_routes [of "request 0 ''notifications/initialized'' []" sample_env sample_server "[]"]
    handleRequest_routes [of "request 2 ''tools/list'' []" sample_env sample_server "[]"]
    handleRequest_routes [of "request 3 ''tools/call'' params_unknown" sample_env sample_server "[]"]
    handleRequest_routes [of "request 4 ''unknown/method'' []" sample_env sample_server "[]"]
  by (simp add: request_def)

text \<open>
  Claim C3, as amended. As stated (every \<^verbatim>\<open>tools/call\<close> request is dispatched to one
  of the two operations, or names another tool) the claim fails on a request whose
  parameters do not decode: it is answered with \<open>-32602\<close> "Invalid params" before any
  dispatch. What holds: when the parameters decode, the tool name alone selects the
  operation, \<^verbatim>\<open>generate_image\<close> or \<^verbatim>\<open>edit_image\<close>, whose outcome and effects are
  those of the call; any other name is answered, without any effect, by the error
  \<open>-32601\<close> with the message "Unknown tool: " followed by the name; and
  \<^verbatim>\<open>tools/list\<close> advertises exactly these two tools.
\<close>

theorem tool_dispatch:
  "(json_Unmarshal_params env (Params req) = None \<longrightarrow>
      handleCallTool env s tr req =
        (Return (Some \<lparr>JSONRPC = ''2.0'', ID = req_ID req, Result = None,
                       Error = Some \<lparr>Code = - 32602, Message = ''Invalid params''\<rparr>\<rparr>), tr))
   \<and> (json_Unmarshal_params env (Params req) = Some p \<and> Name p = ''generate_image'' \<longrightarrow>
      handleCallTool env s tr req = dispatched req (generateImage env s tr (Arguments p)))
   \<and> (json_Unmarshal_params env (Params req) = Some p \<and> Name p = ''edit_image'' \<longrightarrow>
      handleCallTool env s tr req = dispatched req (editImage env s tr (Arguments p)))
   \<and> (json_Unmarshal_params env (Params req) = Some p
        \<and> Name p \<notin> {''generate_image'', ''edit_image''} \<longrightarrow>
      handleCallTool env s tr req =
        (Return (Some \<lparr>JSONRPC = ''2.0'', ID = req_ID req, Result = None,
                       Error = Some \<lparr>Code = - 32601, Message = ''Unknown tool: '' @ Name p\<rparr>\<rparr>), tr))
   \<and> Result (handleListTools req) = Some (ListToolsResultOf \<lparr>Tools = tools\<rparr>)
   \<and> map tool_Name tools = [''generate_image'', ''edit_image'']"
  by (simp add: handleCallTool_def error_response_def handleListTools_def tools_def)

theorem tool_dispatch_witness:
  "handleCallTool sample_env sample_server [] (request 5 ''tools/call'' []) =
     (Return (Some \<lparr>JSONRPC = ''2.0'', ID = JNum 5, Result = None,
                    Error = Some \<lparr>Code = - 32602, Message = ''Invalid params''\<rparr>\<rparr>), [])
   \<and> handleCallTool sample_env sample_server [] (request 3 ''tools/call'' params_generate) =
     dispatched (request 3 ''tools/call'' params_generate)
       (generateImage sample_env sample_server [] [''prompt'' \<mapsto> JStr ''a red pixel''])
   \<and> handleCallTool sample_env sample_server [] (request 6 ''tools/call'' params_edit) =
     dispatched (request 6 ''tools/call'' params_edit)
       (editImage sample_env sample_server []
          [''image_path'' \<mapsto> JStr ''cat.png'', ''prompt'' \<mapsto> JStr ''add a hat''])
   \<and> handleCallTool sample_env sample_server [] (request 7 ''tools/call'' params_unknown) =
     (Return (Some \<lparr>JSONRPC = ''2.0'', ID = JNum 7, Result = None,
                    Error = Some \<lparr>Code = - 32601, Message = ''Unknown tool: unknown_tool''\<rparr>\<rparr>), [])"
proof -
  have u: "json_Unmarshal_params sample_env [] = None"
    "json_Unmarshal_params sample_env params_generate =
       Some \<lparr>Name = ''generate_image'', Arguments = [''prompt'' \<mapsto> JStr ''a red pixel'']\<rparr>"
    "json_Unmarshal_params sample_env params_edit =
       Some \<lparr>Name = ''edit_image'',
             Arguments = [''image_path'' \<mapsto> JStr ''cat.png'', ''prompt'' \<mapsto> JStr ''add a hat'']\<rparr>"
    "json_Unmarshal_params sample_env params_unknown =
       Some \<lparr>Name = ''unknown_tool'', Arguments = Map.empty\<rparr>"
    by (simp_all add: sample_env_def sample_params_def params_generate_def
        params_generate_empty_def params_edit_def params_unknown_def)
  show ?thesis
    using
      tool_dispatch [where env = sample_env and s = sample_server and tr = "[]"
        and req = "request 5 ''tools/call'' []"]
      tool_dispatch [where env = sample_env and s = sample_server and tr = "[]"
        and req = "request 3 ''tools/call'' params_generate"
        and p = "\<lparr>Name = ''generate_image'', Arguments = [''prompt'' \<mapsto> JStr ''a red pixel'']\<rparr>"]
      tool_dispatch [where env = sample_env and s = sample_server and tr = "[]"
        and req = "request 6 ''tools/call'' params_edit"
        and p = "\<lparr>Name = ''edit_image'',
          Arguments = [''image_path'' \<mapsto> JStr ''cat.png'', ''prompt'' \<mapsto> JStr ''add a hat'']\<rparr>"]
      tool_dispatch [where env = sample_env and s = sample_server and tr = "[]"
        and req = "request 7 ''tools/call'' params_unknown"
        and p = "\<lparr>Name = ''unknown_tool'', Arguments = Map.empty\<rparr>"]
    by (simp add: request_def u)
qed

text \<open>
  The counterexample to C3 as stated: a \<^verbatim>\<open>tools/call\<close> request without parameters
  (\<^verbatim>\<open>json.Unmarshal\<close> fails on the empty input) reaches neither operation and is not
  answered with \<open>-32601\<close>.
\<close>

theorem invalid_params_not_dispatched:
  "Method (request 5 ''tools/call'' []) = ''tools/call''
   \<and> handleRequest sample_env sample_server [] (request 5 ''tools/call'' []) =
     (Return (Some \<lparr>JSONRPC = ''2.0'', ID = JNum 5, Result = None,
                    Error = Some \<lparr>Code = - 32602, Message = ''Invalid params''\<rparr>\<rparr>), [])"
  by code_simp

text \<open>
  Claim C4. When the operation that a \<^verbatim>\<open>tools/call\<close> request is dispatched to returns
  an error, the response carries a result and no JSON-RPC error; the result has
  \<^verbatim>\<open>IsError\<close> set and a single text element, "Error: " followed by the message of
  the error.
\<close>

theorem tool_error_is_a_result:
  assumes "Method req = ''tools/call''"
    and "json_Unmarshal_params env (Params req) = Some p"
    and "Name p = ''generate_image'' \<and> generateImage env s tr (Arguments p) = (Return (Inl msg), tr')
       \<or> Name p = ''edit_image'' \<and> editImage env s tr (Arguments p) = (Return (Inl msg), tr')"
  shows "handleRequest env s tr req =
    (Return (Some \<lparr>JSONRPC = ''2.0'', ID = req_ID req,
                   Result = Some (CallToolResultOf
                     \<lparr>Content = [\<lparr>Type = ''text'', Text = ''Error: '' @ msg, Data = [], MimeType = []\<rparr>],
                      IsError = True\<rparr>),
                   Error = None\<rparr>), tr')"
  using assms
  by (auto simp: handleRequest_def handleCallTool_def dispatched_def tool_response_def text_content_def)

theorem tool_error_is_a_result_witness:
  "Method (request 8 ''tools/call'' params_generate_empty) = ''tools/call''
   \<and> generateImage sample_env sample_server [] Map.empty = (Return (Inl ''prompt is required''), [])
   \<and> handleRequest sample_env sample_server [] (request 8 ''tools/call'' params_generate_empty) =
     (Return (Some \<lparr>JSONRPC = ''2.0'', ID = JNum 8,
                    Result = Some (CallToolResultOf
                      \<lparr>Content = [\<lparr>Type = ''text'', Text = ''Error: prompt is required'',
                                   Data = [], MimeType = []\<rparr>],
                       IsError = True\<rparr>),
                    Error = None\<rparr>), [])"
proof -
  let ?req = "request 8 ''tools/call'' params_generate_empty"
  let ?p = "\<lparr>Name = ''generate_image'', Arguments = Map.empty\<rparr>"
  have m: "Method ?req = ''tools/call''"
    by (simp add: request_def)
  have u: "json_Unmarshal_params sample_env (Params ?req) = Some ?p"
    by (simp add: request_def sample_env_def sample_params_def params_generate_def
        params_generate_empty_def)
  have g: "generateImage sample_env sample_server [] (Arguments ?p) =
      (Return (Inl ''prompt is required''), [])"
    by (simp add: generateImage_def)
  from g have "Name ?p = ''generate_image''
        \<and> generateImage sample_env sample_server [] (Arguments ?p) =
            (Return (Inl ''prompt is required''), [])
      \<or> Name ?p = ''edit_image''
        \<and> editImage sample_env sample_server [] (Arguments ?p) =
            (Return (Inl ''prompt is required''), [])"
    by simp
  from tool_error_is_a_result [OF m u this] m g show ?thesis
    by (simp add: request_def)
qed

section \<open>The shape of every response\<close>

lemma handleRequest_structured:
  "handleRequest env s tr req = (Return (Some resp), tr') \<Longrightarrow> structured resp"
  by (auto simp: handleRequest_def handleCallTool_def dispatched_def tool_response_def
      error_response_def handleInitialize_def handleListTools_def structured_def
      split: if_splits option.splits prod.splits outcome.splits sum.splits)

lemma reply_due_structured:
  assumes "reply_due env s tr line = Some out"
  shows "\<exists>resp. json_Marshal env resp = Some out \<and> structured resp"
proof -
  from assms obtain req resp where
    "fst (handleRequest env s (tr @ [Scan line]) req) = Return (Some resp)"
    and m: "json_Marshal env resp = Some out"
    by (auto simp: reply_due_def split: if_splits option.splits outcome.splits)
  then have "handleRequest env s (tr @ [Scan line]) req =
      (Return (Some resp), snd (handleRequest env s (tr @ [Scan line]) req))"
    by (metis prod.collapse)
  then have "structured resp" by (rule handleRequest_structured)
  with m show ?thesis by blast
qed

lemma map_filter_member: "x \<in> set (List.map_filter f xs) \<Longrightarrow> \<exists>i\<in>set xs. f i = Some x"
  by (auto simp: List.map_filter_def)

text \<open>
  Claim C8. Every line that a run adds to standard output is the marshalling of a response
  with \<^verbatim>\<open>JSONRPC\<close> equal to "2.0" that carries exactly one of a result and an
  error.
\<close>

theorem responses_are_structured:
  assumes "out \<in> set (stdout_of (fst (Run env s tr lines e)))"
    and "out \<notin> set (stdout_of tr)"
  shows "\<exists>resp. json_Marshal env resp = Some out \<and> structured resp"
proof -
  obtain k where
    "stdout_of (fst (Run_loop env s tr lines)) =
       stdout_of tr @ List.map_filter (reply_at env s tr lines) [0..<k]"
    using Run_loop_stdout by blast
  moreover have "fst (Run env s tr lines e) = fst (Run_loop env s tr lines)"
    by (simp add: Run_def split: prod.splits bool.splits)
  ultimately have "out \<in> set (List.map_filter (reply_at env s tr lines) [0..<k])"
    using assms by simp
  then obtain i where "reply_at env s tr lines i = Some out"
    using map_filter_member by fastforce
  then show ?thesis
    unfolding reply_at_def by (rule reply_due_structured)
qed

theorem responses_are_structured_witness:
  "''initialized: 2024-11-05'' \<in> set (stdout_of (fst (Run sample_env sample_server []
       [line_initialize] None)))
   \<and> ''initialized: 2024-11-05'' \<notin> set (stdout_of [])
   \<and> (\<exists>resp. json_Marshal sample_env resp = Some ''initialized: 2024-11-05''
         \<and> structured resp)"
proof -
  have a: "''initialized: 2024-11-05'' \<in> set (stdout_of (fst (Run sample_env sample_server []
       [line_initialize] None)))"
    by code_simp
  have b: "''initialized: 2024-11-05'' \<notin> set (stdout_of [])"
    by simp
  from responses_are_structured [OF a b] a b show ?thesis
    by blast
qed

section \<open>Path traversal\<close>

text \<open>
  Claim C9, as amended. As stated the claim fails on an argument map without a usable
  prompt: the prompt is checked before the path is cleaned, and the error is "prompt is
  required". What holds: for every argument map whose \<^verbatim>\<open>image_path\<close> is a string that
  contains \<^verbatim>\<open>..\<close> after \<^verbatim>\<open>filepath.Clean\<close>, \<^verbatim>\<open>editImage\<close> returns an error and
  leaves the history as it was (no file read, no call of the service, nothing written);
  the error is the traversal error when the prompt is a non-empty string, and the error of
  the failed argument check otherwise.
\<close>

theorem traversal_rejected:
  assumes "args ''image_path'' = Some (JStr imagePath)"
    and "Contains (filepath_Clean env imagePath) ''..''"
  shows "editImage env s tr args =
    (Return (Inl
       (if imagePath = [] then ''image_path is required''
        else if snd (string_assertion (args ''prompt'')) \<and> fst (string_assertion (args ''prompt'')) \<noteq> []
        then ''invalid image path: directory traversal not allowed''
        else ''prompt is required'')), tr)"
  using assms by (simp add: editImage_def split: prod.splits)

theorem traversal_rejected_witness:
  "Contains (filepath_Clean sample_env ''foo/../../../bar'') ''..''
   \<and> editImage sample_env sample_server []
       [''image_path'' \<mapsto> JStr ''foo/../../../bar'', ''prompt'' \<mapsto> JStr ''test prompt''] =
     (Return (Inl ''invalid image path: directory traversal not allowed''), [])"
proof -
  let ?args = "[''image_path'' \<mapsto> JStr ''foo/../../../bar'', ''prompt'' \<mapsto> JStr ''test prompt'']"
  have a: "?args ''image_path'' = Some (JStr ''foo/../../../bar'')"
    by simp
  have c: "Contains (filepath_Clean sample_env ''foo/../../../bar'') ''..''"
    by (simp add: sample_env_def unix_Clean_def)
  from traversal_rejected [where args = ?args and env = sample_env and s = sample_server
      and tr = "[]", OF a c] c
  show ?thesis
    by simp
qed

text \<open>
  The counterexample to C9 as stated: the cleaned path contains \<^verbatim>\<open>..\<close>, and the error
  does not mention directory traversal.
\<close>

theorem traversal_without_prompt:
  "Contains (filepath_Clean sample_env ''../etc/passwd'') ''..''
   \<and> editImage sample_env sample_server [] [''image_path'' \<mapsto> JStr ''../etc/passwd''] =
     (Return (Inl ''prompt is required''), [])"
  by (simp add: sample_env_def unix_Clean_def editImage_def)

section \<open>Reading the first candidate\<close>

lemma deliver_no_candidate:
  "Candidates result = [] \<Longrightarrow>
     deliver env s tr result none_msg prefix saved_msg = (Panic, tr)"
  by (simp add: deliver_def first_candidate_parts_def)

text \<open>
  Claim C10 does not hold of the code: \<^verbatim>\<open>result.Candidates[0]\<close> is read without a
  check of the length. Whenever the service answers a call without error and without any
  candidate, \<^verbatim>\<open>generateImage\<close> panics right after the call, and so does
  \<^verbatim>\<open>editImage\<close> once it has read the source image. The panic is not recovered: the
  process ends, the request gets no reply and the lines after it are never read.
\<close>

theorem first_candidate_unchecked:
  assumes "Candidates result = []"
  shows "(valid_prompt args
          \<and> Models_GenerateContent env tr geminiModel
                (genai_Text (fst (string_assertion (args ''prompt'')))) = Inr result \<longrightarrow>
          generateImage env s tr args =
            (Panic, tr @ [GenerateContentCall geminiModel
                            (genai_Text (fst (string_assertion (args ''prompt''))))]))
       \<and> (source_read env tr args
          \<and> (\<forall>h contents. Models_GenerateContent env h geminiModel contents = Inr result) \<longrightarrow>
          fst (editImage env s tr args) = Panic)"
proof (intro conjI impI)
  assume a: "valid_prompt args
          \<and> Models_GenerateContent env tr geminiModel
                (genai_Text (fst (string_assertion (args ''prompt'')))) = Inr result"
  obtain prompt ok where p: "string_assertion (args ''prompt'') = (prompt, ok)"
    by (cases "string_assertion (args ''prompt'')")
  with a assms show "generateImage env s tr args =
            (Panic, tr @ [GenerateContentCall geminiModel
                            (genai_Text (fst (string_assertion (args ''prompt''))))])"
    by (simp add: generateImage_def valid_prompt_def deliver_no_candidate)
next
  assume a: "source_read env tr args
          \<and> (\<forall>h contents. Models_GenerateContent env h geminiModel contents = Inr result)"
  obtain imagePath ok1 where p1: "string_assertion (args ''image_path'') = (imagePath, ok1)"
    by (cases "string_assertion (args ''image_path'')")
  obtain prompt ok2 where p2: "string_assertion (args ''prompt'') = (prompt, ok2)"
    by (cases "string_assertion (args ''prompt'')")
  from a p1 p2 obtain imageBytes where
    "os_ReadFile env tr (filepath_Clean env imagePath) = Inr imageBytes"
    by (cases "os_ReadFile env tr (filepath_Clean env imagePath)")
      (simp_all add: source_read_def)
  with a p1 p2 assms show "fst (editImage env s tr args) = Panic"
    by (simp add: editImage_def Let_def source_read_def valid_prompt_def deliver_no_candidate)
qed

theorem first_candidate_unchecked_witness:
  "Candidates \<lparr>Candidates = []\<rparr> = []
   \<and> Models_GenerateContent blocked_env [Scan line_generate] geminiModel
       (genai_Text ''a red pixel'') = Inr \<lparr>Candidates = []\<rparr>
   \<and> generateImage blocked_env sample_server [Scan line_generate]
       [''prompt'' \<mapsto> JStr ''a red pixel''] =
     (Panic, [Scan line_generate, GenerateContentCall geminiModel (genai_Text ''a red pixel'')])
   \<and> fst (editImage blocked_env sample_server []
       [''image_path'' \<mapsto> JStr ''cat.png'', ''prompt'' \<mapsto> JStr ''add a hat'']) = Panic
   \<and> Run blocked_env sample_server [] [line_generate, line_list] None =
     ([Scan line_generate, GenerateContentCall geminiModel (genai_Text ''a red pixel'')], Crashed)"
proof -
  let ?args = "[''prompt'' \<mapsto> JStr ''a red pixel'']"
  let ?edit = "[''image_path'' \<mapsto> JStr ''cat.png'', ''prompt'' \<mapsto> JStr ''add a hat'']"
  have c: "Candidates \<lparr>Candidates = []\<rparr> = []"
    by simp
  have v: "valid_prompt ?args"
    by (simp add: valid_prompt_def)
  have m: "Models_GenerateContent blocked_env h geminiModel contents = Inr \<lparr>Candidates = []\<rparr>"
    for h contents
    by (simp add: blocked_env_def)
  have sr: "source_read blocked_env [] ?edit"
    by (simp add: source_read_def valid_prompt_def blocked_env_def sample_env_def unix_Clean_def)
  have r: "Run blocked_env sample_server [] [line_generate, line_list] None =
      ([Scan line_generate, GenerateContentCall geminiModel (genai_Text ''a red pixel'')], Crashed)"
    by code_simp
  note t = first_candidate_unchecked [OF c, where env = blocked_env and s = sample_server]
  from t [where args = ?args and tr = "[Scan line_generate]"] v m
  have g: "generateImage blocked_env sample_server [Scan line_generate] ?args =
     (Panic, [Scan line_generate, GenerateContentCall geminiModel (genai_Text ''a red pixel'')])"
    by simp
  from t [where args = ?edit and tr = "[]"] sr m
  have e: "fst (editImage blocked_env sample_server [] ?edit) = Panic"
    by simp
  from c m g e r show ?thesis
    by simp
qed

section \<open>The line protocol\<close>





section \<open>One outbound call, one saved file\<close>

















end
